theory Spec2Isabelle
  imports Complex_Main
begin

section \<open>Python values and errors\<close>

text \<open>
  The program is \<^verbatim>\<open>src/main.py\<close>: one run fetches the latest observation of a weather
  station, normalises its timestamp, reads the last logged timestamp of a worksheet,
  decides whether the observation is new enough, maps it to a row and appends the row.

  Exceptions are values: a function that can raise returns \<open>pyerr + 'a\<close>, with \<open>Inl\<close> the
  exception.
\<close>

datatype pyerr =
  OverflowError | AttributeError | TypeError | KeyError | IndexError | ParserError
  | JSONDecodeError

subsection \<open>Datetimes\<close>

text \<open>
  A \<^verbatim>\<open>datetime\<close> is a wall-clock reading with an optional \<^verbatim>\<open>tzinfo\<close>. The reading is
  kept as the number of microseconds since 0001-01-01 00:00:00 on that wall clock
  (\<^verbatim>\<open>datetime.min\<close> is 0, \<^verbatim>\<open>datetime.max\<close> is \<open>MAX_US\<close>); the calendar fields are
  computed from it where the program formats them.

  A \<^verbatim>\<open>tzinfo\<close> object is either one of the instances of a pytz zone (the zone's name
  and the offset from UTC of that instance) or any other implementation with a fixed
  offset (what \<^verbatim>\<open>dateutil\<close> attaches to a parsed text that carries an offset).
  Offsets are in microseconds.
\<close>

datatype tzinfo = ZoneTz string int | OtherTz int

fun utcoffset :: "tzinfo \<Rightarrow> int" where
  "utcoffset (ZoneTz z off) = off"
| "utcoffset (OtherTz off) = off"

record aware =
  wall :: int
  tz :: tzinfo

datatype datetime = Naive int | Aware aware

definition DAY_US :: int where
  "DAY_US = 86400000000"

definition MAX_US :: int where
  "MAX_US = 3652059 * 86400000000 - 1"

definition in_range :: "int \<Rightarrow> bool" where
  "in_range w = (0 \<le> w \<and> w \<le> MAX_US)"

text \<open>The point in time an aware datetime denotes, in microseconds of UTC wall clock.\<close>

definition instant :: "aware \<Rightarrow> int" where
  "instant a = wall a - utcoffset (tz a)"

text \<open>
  Comparison and subtraction of two aware datetimes go through UTC
  (\<^verbatim>\<open>obs_ts <= last_ts\<close>, \<^verbatim>\<open>obs_ts - last_ts\<close>); the difference is a \<^verbatim>\<open>timedelta\<close>, kept
  in microseconds. \<^verbatim>\<open>total_seconds()\<close> is the exact quotient: the rounding of the
  floating-point division is not modelled.
\<close>

definition dt_le :: "aware \<Rightarrow> aware \<Rightarrow> bool" where
  "dt_le a b = (instant a \<le> instant b)"

definition dt_sub :: "aware \<Rightarrow> aware \<Rightarrow> int" where
  "dt_sub a b = instant a - instant b"

definition total_seconds :: "int \<Rightarrow> rat" where
  "total_seconds d = of_int d / 1000000"

subsection \<open>The configured timezone\<close>

text \<open>
  \<^verbatim>\<open>TZ = pytz.timezone(TIMEZONE)\<close> is a table of the library; it is a parameter here:
  the zone's name, whether it is a zone of one fixed offset (pytz's \<^verbatim>\<open>StaticTzInfo\<close>
  and \<^verbatim>\<open>UTC\<close>) or one with transitions (\<^verbatim>\<open>DstTzInfo\<close>, as the default
  \<^verbatim>\<open>Africa/Johannesburg\<close>), the offset in force at a UTC reading, and the offset that
  \<^verbatim>\<open>localize\<close> (with its default \<^verbatim>\<open>is_dst=False\<close>) chooses for a local reading.

  \<^verbatim>\<open>TZ.localize(dt)\<close> attaches a tzinfo to a naive datetime and leaves its fields alone.
  For a zone with transitions it first computes \<^verbatim>\<open>dt - 1 day\<close> and \<^verbatim>\<open>dt + 1 day\<close>, which
  raises OverflowError within a day of the ends of the datetime range.

  \<^verbatim>\<open>dt.astimezone(TZ)\<close> returns \<^verbatim>\<open>dt\<close> itself when its tzinfo is the object \<^verbatim>\<open>TZ\<close> (so
  for every datetime of a fixed-offset zone); otherwise it computes the UTC reading
  \<^verbatim>\<open>dt - offset\<close> and then the reading of the zone, each of which raises OverflowError
  outside the datetime range.
\<close>

record tzdata =
  zone :: string
  static :: bool
  utc_offset :: "int \<Rightarrow> int"
  local_offset :: "int \<Rightarrow> int"

definition localize :: "tzdata \<Rightarrow> int \<Rightarrow> pyerr + aware" where
  "localize Z w =
     (if \<not> static Z \<and> (w - DAY_US < 0 \<or> MAX_US < w + DAY_US) then Inl OverflowError
      else Inr \<lparr>wall = w, tz = ZoneTz (zone Z) (local_offset Z w)\<rparr>)"

fun is_zone_object :: "tzdata \<Rightarrow> tzinfo \<Rightarrow> bool" where
  "is_zone_object Z (ZoneTz z off) = (static Z \<and> z = zone Z)"
| "is_zone_object Z (OtherTz off) = False"

definition astimezone :: "tzdata \<Rightarrow> aware \<Rightarrow> pyerr + aware" where
  "astimezone Z a =
     (if is_zone_object Z (tz a) then Inr a
      else let utc = instant a in
        if \<not> in_range utc then Inl OverflowError
        else let w = utc + utc_offset Z utc in
          if \<not> in_range w then Inl OverflowError
          else Inr \<lparr>wall = w, tz = ZoneTz (zone Z) (utc_offset Z utc)\<rparr>)"

subsection \<open>Values\<close>

text \<open>
  What \<^verbatim>\<open>json.loads\<close> produces, and a datetime: the values that reach the program's
  \<^verbatim>\<open>Any\<close>-typed parameters. A dict is an association list, looked up with \<open>map_of\<close>.
  Floats are kept by their exact value.
\<close>

datatype pyval =
    VNone
  | VBool bool
  | VInt int
  | VFloat rat
  | VStr string
  | VList "pyval list"
  | VDict "(string \<times> pyval) list"
  | VDatetime datetime

text \<open>Python's truth value (\<^verbatim>\<open>not v\<close> is its negation).\<close>

fun truthy :: "pyval \<Rightarrow> bool" where
  "truthy VNone = False"
| "truthy (VBool b) = b"
| "truthy (VInt n) = (n \<noteq> 0)"
| "truthy (VFloat x) = (x \<noteq> 0)"
| "truthy (VStr s) = (s \<noteq> [])"
| "truthy (VList xs) = (xs \<noteq> [])"
| "truthy (VDict kvs) = (kvs \<noteq> [])"
| "truthy (VDatetime d) = True"

text \<open>\<^verbatim>\<open>v.get(k)\<close> and \<^verbatim>\<open>v.get(k, default)\<close>: only a dict has the method.\<close>

fun py_get :: "pyval \<Rightarrow> string \<Rightarrow> pyval \<Rightarrow> pyerr + pyval" where
  "py_get (VDict kvs) k dflt = Inr (case map_of kvs k of None \<Rightarrow> dflt | Some v \<Rightarrow> v)"
| "py_get v k dflt = Inl AttributeError"

text \<open>
  \<^verbatim>\<open>v[0]\<close>: the first element of a list, the first character of a string; a dict
  decoded from JSON has only string keys, and the other values are not subscriptable.
\<close>

fun py_index0 :: "pyval \<Rightarrow> pyerr + pyval" where
  "py_index0 (VList (x # xs)) = Inr x"
| "py_index0 (VList []) = Inl IndexError"
| "py_index0 (VStr (c # cs)) = Inr (VStr [c])"
| "py_index0 (VStr []) = Inl IndexError"
| "py_index0 (VDict kvs) = Inl KeyError"
| "py_index0 v = Inl TypeError"

text \<open>\<^verbatim>\<open>a or b\<close>.\<close>

definition py_or :: "pyval \<Rightarrow> pyval \<Rightarrow> pyval" where
  "py_or a b = (if truthy a then a else b)"

text \<open>
  \<^verbatim>\<open>str.strip()\<close> removes leading and trailing whitespace. Strings are lists of 8-bit
  characters here, so the whitespace is the ASCII one (tab to carriage return, the four
  separators 28 to 31, and the space).
\<close>

definition is_space :: "char \<Rightarrow> bool" where
  "is_space c = (let n = of_char c :: nat in (9 \<le> n \<and> n \<le> 13) \<or> (28 \<le> n \<and> n \<le> 32))"

definition strip :: "string \<Rightarrow> string" where
  "strip s = rev (dropWhile is_space (rev (dropWhile is_space s)))"

section \<open>The environment of a run\<close>

text \<open>
  The library functions and settings the program reads:
  \<^item> \<open>TZ\<close>: the configured timezone;
  \<^item> \<open>dateparse\<close>: \<^verbatim>\<open>dateutil.parser.parse\<close>, which returns a datetime (naive or aware),
    or \<^verbatim>\<open>None\<close>, or raises;
  \<^item> \<open>str_of\<close>: \<^verbatim>\<open>str(v)\<close> for a value that is not a string;
  \<^item> \<open>DUP_WINDOW_SEC\<close>: the duplicate window in seconds;
  \<^item> \<open>render\<close>: the text the worksheet gives back for a value entered into a cell
    (\<^verbatim>\<open>value_input_option="USER_ENTERED"\<close>).
\<close>

record env =
  TZ :: tzdata
  dateparse :: "string \<Rightarrow> pyerr + datetime option"
  str_of :: "pyval \<Rightarrow> string"
  DUP_WINDOW_SEC :: int
  render :: "pyval \<Rightarrow> string"

fun py_str :: "env \<Rightarrow> pyval \<Rightarrow> string" where
  "py_str E (VStr s) = s"
| "py_str E v = str_of E v"

section \<open>\<^verbatim>\<open>parse_any_datetime\<close>\<close>

text \<open>
  Lines 56 to 79. The branch for a datetime is outside the \<^verbatim>\<open>try\<close>: what \<^verbatim>\<open>localize\<close> and
  \<^verbatim>\<open>astimezone\<close> raise there reaches the caller. In the branch for any other value
  every exception (of \<^verbatim>\<open>str\<close>, of the parser, of \<^verbatim>\<open>localize\<close> and \<^verbatim>\<open>astimezone\<close>) is caught
  and the result is \<^verbatim>\<open>None\<close>.
\<close>

definition to_tz :: "tzdata \<Rightarrow> datetime \<Rightarrow> pyerr + aware" where
  "to_tz Z d = (case d of Naive w \<Rightarrow> localize Z w | Aware a \<Rightarrow> astimezone Z a)"

definition parse_any_datetime :: "env \<Rightarrow> pyval \<Rightarrow> pyerr + aware option" where
  "parse_any_datetime E v =
     (if v = VNone \<or> v = VStr [] then Inr None
      else case v of
        VDatetime d \<Rightarrow>
          (case to_tz (TZ E) d of Inl e \<Rightarrow> Inl e | Inr a \<Rightarrow> Inr (Some a))
      | _ \<Rightarrow>
          (case dateparse E (py_str E v) of
             Inl e \<Rightarrow> Inr None
           | Inr None \<Rightarrow> Inr None
           | Inr (Some d) \<Rightarrow>
               (case to_tz (TZ E) d of Inl e \<Rightarrow> Inr None | Inr a \<Rightarrow> Inr (Some a))))"

section \<open>The duplicate guard\<close>

text \<open>Lines 182 to 191 of \<^verbatim>\<open>main\<close>: the decision on the observation's instant.\<close>

datatype decision = Admit | SkipNotNewer | SkipTooSoon

definition duplicate_guard :: "env \<Rightarrow> aware \<Rightarrow> aware option \<Rightarrow> decision" where
  "duplicate_guard E obs_ts last_ts =
     (case last_ts of
        None \<Rightarrow> Admit
      | Some l \<Rightarrow>
          if dt_le obs_ts l then SkipNotNewer
          else let diff_sec = total_seconds (dt_sub obs_ts l) in
            if diff_sec < of_int (DUP_WINDOW_SEC E) then SkipTooSoon else Admit)"

section \<open>The written timestamp\<close>

text \<open>
  \<^verbatim>\<open>obs_ts.strftime("%Y-%m-%d %H:%M:%S")\<close>. The calendar date of a day number follows
  \<^verbatim>\<open>datetime._ord2ymd\<close> (the argument is the ordinal minus one); the fields are written
  with leading zeros, the year with four digits.
\<close>

definition DAYS_IN_MONTH :: "int list" where
  "DAYS_IN_MONTH = [-1, 31, 28, 31, 30, 31, 30, 31, 31, 30, 31, 30, 31]"

definition DAYS_BEFORE_MONTH :: "int list" where
  "DAYS_BEFORE_MONTH = [-1, 0, 31, 59, 90, 120, 151, 181, 212, 243, 273, 304, 334]"

definition ord2ymd :: "int \<Rightarrow> int \<times> int \<times> int" where
  "ord2ymd n0 =
     (let n400 = n0 div 146097; na = n0 mod 146097;
          n100 = na div 36524; nb = na mod 36524;
          n4 = nb div 1461; nc = nb mod 1461;
          n1 = nc div 365; n = nc mod 365;
          year = n400 * 400 + 1 + n100 * 100 + n4 * 4 + n1
      in if n1 = 4 \<or> n100 = 4 then (year - 1, 12, 31)
         else
           let leapyear = (n1 = 3 \<and> (n4 \<noteq> 24 \<or> n100 = 3));
               month = (n + 50) div 32;
               preceding = DAYS_BEFORE_MONTH ! nat month + (if 2 < month \<and> leapyear then 1 else 0)
           in if n < preceding
              then
                let month' = month - 1;
                    preceding' = preceding
                      - (DAYS_IN_MONTH ! nat month' + (if month' = 2 \<and> leapyear then 1 else 0))
                in (year, month', n - preceding' + 1)
              else (year, month, n - preceding + 1))"

definition digit :: "int \<Rightarrow> char" where
  "digit n = ''0123456789'' ! nat (n mod 10)"

definition digits2 :: "int \<Rightarrow> string" where
  "digits2 n = [digit (n div 10), digit n]"

definition digits4 :: "int \<Rightarrow> string" where
  "digits4 n = [digit (n div 1000), digit (n div 100), digit (n div 10), digit n]"

definition strftime :: "aware \<Rightarrow> string" where
  "strftime a =
     (let days = wall a div DAY_US;
          secs = (wall a mod DAY_US) div 1000000
      in case ord2ymd days of (y, m, d) \<Rightarrow>
           digits4 y @ ''-'' @ digits2 m @ ''-'' @ digits2 d @ '' ''
           @ digits2 (secs div 3600) @ '':'' @ digits2 (secs mod 3600 div 60) @ '':''
           @ digits2 (secs mod 60))"

section \<open>\<^verbatim>\<open>safe_fetch_current\<close>\<close>

text \<open>
  Lines 92 to 114. The response of \<^verbatim>\<open>requests.get\<close> is given: its status, its text, and
  what \<^verbatim>\<open>r.json()\<close> returns or raises. Python's \<^verbatim>\<open>None\<close> is \<open>VNone\<close>.
\<close>

record response =
  status_code :: int
  text_body :: string
  json_body :: "pyerr + pyval"

definition safe_fetch_current :: "response \<Rightarrow> int \<times> pyval \<times> string" where
  "safe_fetch_current r =
     (let status = status_code r; txt = text_body r in
      if status = 204 then (status, VNone, txt)
      else if status \<noteq> 200 then (status, VNone, txt)
      else if strip txt = [] then (status, VNone, txt)
      else case json_body r of
             Inr v \<Rightarrow> (status, v, txt)
           | Inl e \<Rightarrow> (status, VNone, txt))"

section \<open>\<^verbatim>\<open>get_last_logged_timestamp\<close>\<close>

text \<open>
  Lines 117 to 131. The worksheet is what \<^verbatim>\<open>ws.get_all_values()\<close> returns: a list of rows,
  each a list of cell texts. \<open>scan_rows\<close> is the \<^verbatim>\<open>for\<close> loop over the reversed data rows.
\<close>

type_synonym sheet = "string list list"

fun scan_rows :: "env \<Rightarrow> sheet \<Rightarrow> pyerr + aware option" where
  "scan_rows E [] = Inr None"
| "scan_rows E (row # rows) =
     (case row of
        [] \<Rightarrow> scan_rows E rows
      | c # cs \<Rightarrow>
          if strip c \<noteq> [] then parse_any_datetime E (VStr c) else scan_rows E rows)"

definition get_last_logged_timestamp :: "env \<Rightarrow> sheet \<Rightarrow> pyerr + aware option" where
  "get_last_logged_timestamp E vals =
     (if vals = [] \<or> length vals < 2 then Inr None
      else scan_rows E (rev (tl vals)))"

section \<open>The row\<close>

text \<open>
  Lines 194 to 206. The elements of the list display are evaluated from left to right;
  the first exception ends the evaluation.
\<close>

fun sequence :: "(pyerr + 'a) list \<Rightarrow> pyerr + 'a list" where
  "sequence [] = Inr []"
| "sequence (Inl e # xs) = Inl e"
| "sequence (Inr x # xs) = (case sequence xs of Inl e \<Rightarrow> Inl e | Inr ys \<Rightarrow> Inr (x # ys))"

definition map_row :: "string \<Rightarrow> pyval \<Rightarrow> pyerr + pyval list" where
  "map_row timestamp_str obs =
     (case py_get obs ''metric'' VNone of
        Inl e \<Rightarrow> Inl e
      | Inr mv \<Rightarrow>
          let m = py_or mv (VDict []) in
          sequence
            [Inr (VStr timestamp_str),
             py_get m ''temp'' (VStr []),
             py_get m ''windSpeed'' (VStr []),
             py_get m ''windGust'' (VStr []),
             py_get obs ''winddir'' (VStr []),
             py_get m ''precipRate'' (VStr []),
             py_get m ''precipTotal'' (VStr []),
             py_get m ''pressure'' (VStr []),
             py_get obs ''humidity'' (VStr [])])"

section \<open>\<^verbatim>\<open>main\<close>\<close>

text \<open>
  A run takes the response of the API and the worksheet, and ends with an outcome, the
  operations it performed on the log store, in order, and the worksheet it leaves.
  The required settings are present (\<^verbatim>\<open>require_env\<close> returns), and the calls to the
  store succeed: a failure of the store ends the run with the store's exception and is
  not part of the model.

  An outcome is the message the run prints: a skip with its reason, the logged
  timestamp, or the exception the run ends with.
\<close>

datatype skip =
    NoData
  | ApiError int string
  | EmptyObservations
  | MissingObsTime
  | UnparsableObsTime pyval
  | NotNewer string
  | TooSoon int string

datatype outcome = Skipped skip | Logged string | Crashed pyerr

datatype store_op = OpenSheet | GetAllValues | AppendRow "pyval list"

record run =
  outcome :: outcome
  trace :: "store_op list"
  sheet_after :: sheet

text \<open>\<^verbatim>\<open>ws.append_row(row, value_input_option="USER_ENTERED")\<close>.\<close>

definition append_row :: "env \<Rightarrow> pyval list \<Rightarrow> sheet \<Rightarrow> sheet" where
  "append_row E row sh = sh @ [map (render E) row]"

text \<open>Lines 170 to 210: the observation's instant is known.\<close>

definition log_step :: "env \<Rightarrow> pyval \<Rightarrow> aware \<Rightarrow> sheet \<Rightarrow> run" where
  "log_step E obs ts sh =
     (case astimezone (TZ E) ts of
        Inl e \<Rightarrow> \<lparr>outcome = Crashed e, trace = [], sheet_after = sh\<rparr>
      | Inr obs_ts \<Rightarrow>
          let timestamp_str = strftime obs_ts in
          case get_last_logged_timestamp E sh of
            Inl e \<Rightarrow> \<lparr>outcome = Crashed e, trace = [OpenSheet, GetAllValues], sheet_after = sh\<rparr>
          | Inr last_ts \<Rightarrow>
              (case duplicate_guard E obs_ts last_ts of
                 SkipNotNewer \<Rightarrow>
                   \<lparr>outcome = Skipped (NotNewer timestamp_str),
                    trace = [OpenSheet, GetAllValues], sheet_after = sh\<rparr>
               | SkipTooSoon \<Rightarrow>
                   \<lparr>outcome = Skipped (TooSoon (DUP_WINDOW_SEC E) timestamp_str),
                    trace = [OpenSheet, GetAllValues], sheet_after = sh\<rparr>
               | Admit \<Rightarrow>
                   (case map_row timestamp_str obs of
                      Inl e \<Rightarrow>
                        \<lparr>outcome = Crashed e, trace = [OpenSheet, GetAllValues],
                         sheet_after = sh\<rparr>
                    | Inr row \<Rightarrow>
                        \<lparr>outcome = Logged timestamp_str,
                         trace = [OpenSheet, GetAllValues, AppendRow row],
                         sheet_after = append_row E row sh\<rparr>)))"

text \<open>Lines 160 to 168: the first observation is known.\<close>

definition ingest :: "env \<Rightarrow> pyval \<Rightarrow> sheet \<Rightarrow> run" where
  "ingest E obs sh =
     (case py_get obs ''obsTimeLocal'' VNone of
        Inl e \<Rightarrow> \<lparr>outcome = Crashed e, trace = [], sheet_after = sh\<rparr>
      | Inr obs_time_local \<Rightarrow>
          if \<not> truthy obs_time_local
          then \<lparr>outcome = Skipped MissingObsTime, trace = [], sheet_after = sh\<rparr>
          else case parse_any_datetime E obs_time_local of
                 Inl e \<Rightarrow> \<lparr>outcome = Crashed e, trace = [], sheet_after = sh\<rparr>
               | Inr None \<Rightarrow>
                   \<lparr>outcome = Skipped (UnparsableObsTime obs_time_local), trace = [],
                    sheet_after = sh\<rparr>
               | Inr (Some ts) \<Rightarrow> log_step E obs ts sh)"

text \<open>Lines 141 to 157.\<close>

definition main :: "env \<Rightarrow> response \<Rightarrow> sheet \<Rightarrow> run" where
  "main E r sh =
     (case safe_fetch_current r of
        (status, data, raw) \<Rightarrow>
          if status = 204
          then \<lparr>outcome = Skipped NoData, trace = [], sheet_after = sh\<rparr>
          else if status \<noteq> 200 \<or> \<not> truthy data
          then \<lparr>outcome = Skipped (ApiError status (take 300 raw)), trace = [],
                sheet_after = sh\<rparr>
          else case py_get data ''observations'' VNone of
                 Inl e \<Rightarrow> \<lparr>outcome = Crashed e, trace = [], sheet_after = sh\<rparr>
               | Inr ov \<Rightarrow>
                   let obs_list = py_or ov (VList []) in
                   if \<not> truthy obs_list
                   then \<lparr>outcome = Skipped EmptyObservations, trace = [], sheet_after = sh\<rparr>
                   else case py_index0 obs_list of
                          Inl e \<Rightarrow> \<lparr>outcome = Crashed e, trace = [], sheet_after = sh\<rparr>
                        | Inr obs \<Rightarrow> ingest E obs sh)"


section \<open>The specification's reading of the log reader\<close>









section \<open>The specification's reading of the normaliser and of the row\<close>


text \<open>
  A field of an observation or of its metric sub-structure: the value as reported, or
  the empty text when the field is absent. The metric sub-structure of an observation
  is its \<^verbatim>\<open>metric\<close> object, with no fields when there is none.
\<close>

definition field :: "(string \<times> pyval) list \<Rightarrow> string \<Rightarrow> pyval" where
  "field kvs k = (case map_of kvs k of None \<Rightarrow> VStr [] | Some v \<Rightarrow> v)"

definition metric_of :: "(string \<times> pyval) list \<Rightarrow> (string \<times> pyval) list" where
  "metric_of kvs = (case map_of kvs ''metric'' of Some (VDict m) \<Rightarrow> m | _ \<Rightarrow> [])"

definition metric_ok :: "(string \<times> pyval) list \<Rightarrow> bool" where
  "metric_ok kvs =
     (case map_of kvs ''metric'' of
        None \<Rightarrow> True
      | Some (VDict m) \<Rightarrow> True
      | Some v \<Rightarrow> \<not> truthy v)"

section \<open>Instances of the parameters\<close>

text \<open>
  A parser for the examples: it reads the written pattern \<^verbatim>\<open>YYYY-MM-DD HH:MM:SS\<close> as the
  naive datetime of these fields, and the same pattern followed by \<^verbatim>\<open>Z\<close> as the aware
  datetime of these fields in UTC, as \<^verbatim>\<open>dateutil\<close> does on such texts; it raises on any
  other text. The day number of a date follows \<^verbatim>\<open>datetime._ymd2ord\<close>.
\<close>

definition is_leap :: "int \<Rightarrow> bool" where
  "is_leap y = (y mod 4 = 0 \<and> (y mod 100 \<noteq> 0 \<or> y mod 400 = 0))"

definition days_before_year :: "int \<Rightarrow> int" where
  "days_before_year y = (y - 1) * 365 + (y - 1) div 4 - (y - 1) div 100 + (y - 1) div 400"

definition days_in_month :: "int \<Rightarrow> int \<Rightarrow> int" where
  "days_in_month y m = (if m = 2 \<and> is_leap y then 29 else DAYS_IN_MONTH ! nat m)"

definition days_before_month :: "int \<Rightarrow> int \<Rightarrow> int" where
  "days_before_month y m = DAYS_BEFORE_MONTH ! nat m + (if 2 < m \<and> is_leap y then 1 else 0)"

definition ymd2ord :: "int \<Rightarrow> int \<Rightarrow> int \<Rightarrow> int" where
  "ymd2ord y m d = days_before_year y + days_before_month y m + d"

definition is_digit :: "char \<Rightarrow> bool" where
  "is_digit c = (let n = of_char c :: nat in 48 \<le> n \<and> n \<le> 57)"

definition num :: "string \<Rightarrow> int" where
  "num s = foldl (\<lambda>a c. 10 * a + (int (of_char c) - 48)) 0 s"

definition fields_parse :: "string \<Rightarrow> int option" where
  "fields_parse s =
     (if length s = 19
         \<and> list_all is_digit
             (take 4 s @ take 2 (drop 5 s) @ take 2 (drop 8 s) @ take 2 (drop 11 s)
              @ take 2 (drop 14 s) @ take 2 (drop 17 s))
         \<and> [s ! 4, s ! 7, s ! 10, s ! 13, s ! 16] = ''-- ::''
      then
        let y = num (take 4 s); m = num (take 2 (drop 5 s)); d = num (take 2 (drop 8 s));
            hh = num (take 2 (drop 11 s)); mm = num (take 2 (drop 14 s));
            ss = num (take 2 (drop 17 s))
        in if 1 \<le> y \<and> 1 \<le> m \<and> m \<le> 12 \<and> 1 \<le> d \<and> d \<le> days_in_month y m
              \<and> hh \<le> 23 \<and> mm \<le> 59 \<and> ss \<le> 59
           then Some ((ymd2ord y m d - 1) * DAY_US + (hh * 3600 + mm * 60 + ss) * 1000000)
           else None
      else None)"

definition iso_parse :: "string \<Rightarrow> pyerr + datetime option" where
  "iso_parse s =
     (if s \<noteq> [] \<and> last s = CHR ''Z''
      then case fields_parse (butlast s) of
             None \<Rightarrow> Inl ParserError
           | Some w \<Rightarrow> Inr (Some (Aware \<lparr>wall = w, tz = OtherTz 0\<rparr>))
      else case fields_parse s of
             None \<Rightarrow> Inl ParserError
           | Some w \<Rightarrow> Inr (Some (Naive w)))"

text \<open>
  Two zones. \<open>johannesburg\<close> is \<^verbatim>\<open>Africa/Johannesburg\<close> as it has been since 1944: a zone
  with transitions in the library's table, all of them in the past, and the offset
  +02:00. \<open>london\<close> is \<^verbatim>\<open>Europe/London\<close> around the end of summer time on 27 October
  2024, at 01:00 UTC: +01:00 before it and +00:00 from it on; a local reading between
  01:00 and 02:00 of that day occurs twice, and \<^verbatim>\<open>localize\<close> takes it as the later one.
\<close>

definition johannesburg :: tzdata where
  "johannesburg =
     \<lparr>zone = ''Africa/Johannesburg'', static = False,
      utc_offset = (\<lambda>u. 7200000000), local_offset = (\<lambda>w. 7200000000)\<rparr>"



text \<open>
  An environment for the examples: the given zone and window, the parser above, and a
  worksheet that gives a text back as it was entered and an integer in decimal digits,
  which is also \<^verbatim>\<open>str\<close> of an integer. The examples hold no other values.
\<close>

fun decimal :: "nat \<Rightarrow> string" where
  "decimal n = (if n < 10 then [digit (int n)] else decimal (n div 10) @ [digit (int n)])"

definition entered_text :: "pyval \<Rightarrow> string" where
  "entered_text v =
     (case v of
        VStr s \<Rightarrow> s
      | VInt n \<Rightarrow> (if n < 0 then ''-'' @ decimal (nat (- n)) else decimal (nat n))
      | _ \<Rightarrow> [])"

definition example_env :: "tzdata \<Rightarrow> int \<Rightarrow> env" where
  "example_env Z W =
     \<lparr>TZ = Z, dateparse = iso_parse, str_of = entered_text, DUP_WINDOW_SEC = W,
      render = entered_text\<rparr>"

text \<open>
  An observation as the API reports it, with the given \<^verbatim>\<open>obsTimeLocal\<close>, and the
  response that carries it (its text abbreviated).
\<close>

definition sample_fields :: "string \<Rightarrow> (string \<times> pyval) list" where
  "sample_fields t =
     [(''stationID'', VStr ''KZN1''), (''obsTimeLocal'', VStr t),
      (''winddir'', VInt 180), (''humidity'', VInt 55),
      (''metric'', VDict [(''temp'', VInt 21), (''windSpeed'', VInt 12),
                         (''pressure'', VInt 1013)])]"

definition sample_obs :: "string \<Rightarrow> pyval" where
  "sample_obs t = VDict (sample_fields t)"

definition sample_response :: "string \<Rightarrow> response" where
  "sample_response t =
     \<lparr>status_code = 200, text_body = ''{...}'',
      json_body = Inr (VDict [(''observations'', VList [sample_obs t])])\<rparr>"

definition sample_sheet :: sheet where
  "sample_sheet = [[''Timestamp'', ''Temp''], [''2024-01-01 10:00:00'', ''21'']]"

section \<open>Facts about the guard\<close>




section \<open>The duplicate guard decides by the instants\<close>



section \<open>Facts about the stages of a run\<close>

lemma parse_not_datetime_total:
  "(\<And>d. v \<noteq> VDatetime d) \<Longrightarrow> \<exists>r. parse_any_datetime E v = Inr r"
  by (cases v) (auto simp: parse_any_datetime_def split: sum.split option.split)





















section \<open>What a run appends, and the order of the timestamp column\<close>



section \<open>The log reader returns the reading of the last timestamp cell\<close>




section \<open>The normaliser on a datetime at the end of the range\<close>

text \<open>
  Claim C7 says that the timestamp normaliser never raises to its caller, on an absent
  or empty value, on an already-structured instant and on any text. On a value that is
  not a datetime it never raises (\<open>parse_not_datetime_total\<close>). On a datetime the calls
  of \<^verbatim>\<open>localize\<close> and \<^verbatim>\<open>astimezone\<close> are outside the \<^verbatim>\<open>try\<close>: with the default zone,
  the naive \<^verbatim>\<open>datetime.min\<close> and the aware \<^verbatim>\<open>datetime.max\<close> in UTC both end in an
  OverflowError that reaches the caller.
\<close>

theorem structured_instant_raises:
  "parse_any_datetime (example_env johannesburg 60) (VDatetime (Naive 0)) = Inl OverflowError
   \<and> parse_any_datetime (example_env johannesburg 60)
        (VDatetime (Aware \<lparr>wall = MAX_US, tz = OtherTz 0\<rparr>)) = Inl OverflowError"
  by code_simp

section \<open>Every normalised instant is in the configured zone\<close>




section \<open>The classification of the response\<close>

lemma fetch_ok:
  assumes "status_code r = 200" and "strip (text_body r) \<noteq> []" and "json_body r = Inr v"
  shows "safe_fetch_current r = (200, v, text_body r)"
  using assms by (simp add: safe_fetch_current_def Let_def)

lemma fetch_no_json:
  assumes "status_code r = 200" and "strip (text_body r) = [] \<or> (\<exists>e. json_body r = Inl e)"
  shows "safe_fetch_current r = (200, VNone, text_body r)"
  using assms by (auto simp: safe_fetch_current_def Let_def)

lemma fetch_other_status:
  assumes "status_code r \<noteq> 200"
  shows "safe_fetch_current r = (status_code r, VNone, text_body r)"
  using assms by (simp add: safe_fetch_current_def Let_def)

lemma main_first_observation:
  assumes "status_code r = 200" and "strip (text_body r) \<noteq> []"
    and "json_body r = Inr (VDict body)"
    and "map_of body ''observations'' = Some (VList (obs # others))"
  shows "main E r sh = ingest E obs sh"
proof -
  from assms(4) have "body \<noteq> []" by auto
  with fetch_ok [OF assms(1-3)] assms(4) show ?thesis
    by (simp add: main_def py_or_def Let_def)
qed

text \<open>
  Claim C4, as the code has it. A response of status 204 is a no-data skip. Any other
  status than 200 is an API-error skip with the status and the first 300 characters of
  the body. Status 200 with a blank body, with a body that is not JSON, or with a JSON
  value whose truth value is false (the empty object, the empty list, null, zero,
  false, the empty text) is an API-error skip with status 200 and the first 300
  characters of the body. Status 200 with a JSON object that has a field, and whose
  \<^verbatim>\<open>observations\<close> is absent or has a false truth value (null, the empty list), is an
  empty-observations skip. Status 200 with a JSON object whose \<^verbatim>\<open>observations\<close> is a list
  with at least one entry goes on with the first entry only. No run of these ends with
  an exception before the observation is read.
\<close>

theorem response_classification:
  "(status_code r = 204 \<longrightarrow>
      main E r sh = \<lparr>outcome = Skipped NoData, trace = [], sheet_after = sh\<rparr>)
   \<and> (status_code r \<noteq> 200 \<and> status_code r \<noteq> 204 \<longrightarrow>
      main E r sh =
        \<lparr>outcome = Skipped (ApiError (status_code r) (take 300 (text_body r))), trace = [],
         sheet_after = sh\<rparr>)
   \<and> (status_code r = 200
        \<and> (strip (text_body r) = [] \<or> (\<exists>e. json_body r = Inl e)
            \<or> (\<exists>v. json_body r = Inr v \<and> \<not> truthy v)) \<longrightarrow>
      main E r sh =
        \<lparr>outcome = Skipped (ApiError 200 (take 300 (text_body r))), trace = [],
         sheet_after = sh\<rparr>)
   \<and> (status_code r = 200 \<and> strip (text_body r) \<noteq> [] \<and> json_body r = Inr (VDict body)
        \<and> body \<noteq> []
        \<and> (map_of body ''observations'' = None
            \<or> (\<exists>v. map_of body ''observations'' = Some v \<and> \<not> truthy v)) \<longrightarrow>
      main E r sh = \<lparr>outcome = Skipped EmptyObservations, trace = [], sheet_after = sh\<rparr>)
   \<and> (status_code r = 200 \<and> strip (text_body r) \<noteq> [] \<and> json_body r = Inr (VDict body)
        \<and> map_of body ''observations'' = Some (VList (obs # others)) \<longrightarrow>
      main E r sh = ingest E obs sh)"
proof (intro conjI impI)
  assume "status_code r = 204"
  then show "main E r sh = \<lparr>outcome = Skipped NoData, trace = [], sheet_after = sh\<rparr>"
    by (simp add: main_def safe_fetch_current_def Let_def)
next
  assume "status_code r \<noteq> 200 \<and> status_code r \<noteq> 204"
  then show "main E r sh =
        \<lparr>outcome = Skipped (ApiError (status_code r) (take 300 (text_body r))), trace = [],
         sheet_after = sh\<rparr>"
    by (simp add: main_def fetch_other_status)
next
  assume a: "status_code r = 200
        \<and> (strip (text_body r) = [] \<or> (\<exists>e. json_body r = Inl e)
            \<or> (\<exists>v. json_body r = Inr v \<and> \<not> truthy v))"
  then have "\<exists>v. safe_fetch_current r = (200, v, text_body r) \<and> \<not> truthy v"
  proof (cases "strip (text_body r) = [] \<or> (\<exists>e. json_body r = Inl e)")
    case True
    with a fetch_no_json [of r] show ?thesis by simp
  next
    case False
    with a obtain v where "json_body r = Inr v" "\<not> truthy v" by blast
    with a False fetch_ok [of r v] show ?thesis by simp
  qed
  then show "main E r sh =
        \<lparr>outcome = Skipped (ApiError 200 (take 300 (text_body r))), trace = [],
         sheet_after = sh\<rparr>"
    by (auto simp: main_def)
next
  assume a: "status_code r = 200 \<and> strip (text_body r) \<noteq> [] \<and> json_body r = Inr (VDict body)
        \<and> body \<noteq> []
        \<and> (map_of body ''observations'' = None
            \<or> (\<exists>v. map_of body ''observations'' = Some v \<and> \<not> truthy v))"
  then have f: "safe_fetch_current r = (200, VDict body, text_body r)"
    by (simp add: fetch_ok)
  from a have "\<exists>ov. py_get (VDict body) ''observations'' VNone = Inr ov \<and> \<not> truthy ov"
    by auto
  with a f show "main E r sh =
      \<lparr>outcome = Skipped EmptyObservations, trace = [], sheet_after = sh\<rparr>"
    by (auto simp: main_def py_or_def Let_def)
next
  assume "status_code r = 200 \<and> strip (text_body r) \<noteq> [] \<and> json_body r = Inr (VDict body)
        \<and> map_of body ''observations'' = Some (VList (obs # others))"
  then show "main E r sh = ingest E obs sh"
    by (simp add: main_first_observation)
qed

text \<open>One response of each class, on the sample worksheet.\<close>

theorem response_classification_witness:
  "main (example_env johannesburg 60)
     \<lparr>status_code = 204, text_body = [], json_body = Inl JSONDecodeError\<rparr> sample_sheet
   = \<lparr>outcome = Skipped NoData, trace = [], sheet_after = sample_sheet\<rparr>
   \<and> main (example_env johannesburg 60)
       \<lparr>status_code = 503, text_body = ''Service Unavailable'',
        json_body = Inl JSONDecodeError\<rparr> sample_sheet
     = \<lparr>outcome = Skipped (ApiError 503 ''Service Unavailable''), trace = [],
        sheet_after = sample_sheet\<rparr>
   \<and> main (example_env johannesburg 60)
       \<lparr>status_code = 200, text_body = ''<html>'', json_body = Inl JSONDecodeError\<rparr>
       sample_sheet
     = \<lparr>outcome = Skipped (ApiError 200 ''<html>''), trace = [], sheet_after = sample_sheet\<rparr>
   \<and> main (example_env johannesburg 60)
       \<lparr>status_code = 200, text_body = ''{...}'',
        json_body = Inr (VDict [(''observations'', VList [])])\<rparr> sample_sheet
     = \<lparr>outcome = Skipped EmptyObservations, trace = [], sheet_after = sample_sheet\<rparr>
   \<and> main (example_env johannesburg 60) (sample_response ''2024-01-01 10:01:00'') sample_sheet
     = ingest (example_env johannesburg 60) (sample_obs ''2024-01-01 10:01:00'') sample_sheet"
proof -
  let ?E = "example_env johannesburg 60"
  note c = response_classification [where E = ?E and sh = sample_sheet]
  have nb: "strip ''{...}'' \<noteq> []" by code_simp
  have 1: "main ?E \<lparr>status_code = 204, text_body = [], json_body = Inl JSONDecodeError\<rparr>
      sample_sheet = \<lparr>outcome = Skipped NoData, trace = [], sheet_after = sample_sheet\<rparr>"
    using c [where r = "\<lparr>status_code = 204, text_body = [], json_body = Inl JSONDecodeError\<rparr>",
        THEN conjunct1]
    by simp
  have 2: "main ?E \<lparr>status_code = 503, text_body = ''Service Unavailable'',
        json_body = Inl JSONDecodeError\<rparr> sample_sheet
     = \<lparr>outcome = Skipped (ApiError 503 ''Service Unavailable''), trace = [],
        sheet_after = sample_sheet\<rparr>"
    using c [where r = "\<lparr>status_code = 503, text_body = ''Service Unavailable'',
        json_body = Inl JSONDecodeError\<rparr>", THEN conjunct2, THEN conjunct1]
    by simp
  have 3: "main ?E \<lparr>status_code = 200, text_body = ''<html>'', json_body = Inl JSONDecodeError\<rparr>
       sample_sheet
     = \<lparr>outcome = Skipped (ApiError 200 ''<html>''), trace = [], sheet_after = sample_sheet\<rparr>"
    using c [where r = "\<lparr>status_code = 200, text_body = ''<html>'',
        json_body = Inl JSONDecodeError\<rparr>", THEN conjunct2, THEN conjunct2, THEN conjunct1]
    by simp
  have 4: "main ?E \<lparr>status_code = 200, text_body = ''{...}'',
        json_body = Inr (VDict [(''observations'', VList [])])\<rparr> sample_sheet
     = \<lparr>outcome = Skipped EmptyObservations, trace = [], sheet_after = sample_sheet\<rparr>"
    using c [where r = "\<lparr>status_code = 200, text_body = ''{...}'',
        json_body = Inr (VDict [(''observations'', VList [])])\<rparr>"
        and body = "[(''observations'', VList [])]",
        THEN conjunct2, THEN conjunct2, THEN conjunct2, THEN conjunct1] nb
    by simp
  have 5: "main ?E (sample_response ''2024-01-01 10:01:00'') sample_sheet
     = ingest ?E (sample_obs ''2024-01-01 10:01:00'') sample_sheet"
    using c [where r = "sample_response ''2024-01-01 10:01:00''"
        and body = "[(''observations'', VList [sample_obs ''2024-01-01 10:01:00''])]"
        and obs = "sample_obs ''2024-01-01 10:01:00''" and others = "[]",
        THEN conjunct2, THEN conjunct2, THEN conjunct2, THEN conjunct2] nb
    by (simp add: sample_response_def)
  from 1 2 3 4 5 show ?thesis by (intro conjI)
qed

text \<open>
  The claim as stated fails on the body \<^verbatim>\<open>{}\<close>, a valid JSON value without an
  \<^verbatim>\<open>observations\<close> list: the run reports an API error, not empty observations. It
  also fails on the body \<^verbatim>\<open>[1]\<close>, valid JSON with a true truth value that is not an
  object: \<^verbatim>\<open>data.get\<close> raises AttributeError and the run ends with it.
\<close>

theorem response_classification_counterexample:
  "main (example_env johannesburg 60)
     \<lparr>status_code = 200, text_body = ''{}'', json_body = Inr (VDict [])\<rparr> sample_sheet
   = \<lparr>outcome = Skipped (ApiError 200 ''{}''), trace = [], sheet_after = sample_sheet\<rparr>
   \<and> main (example_env johannesburg 60)
       \<lparr>status_code = 200, text_body = ''[1]'', json_body = Inr (VList [VInt 1])\<rparr> sample_sheet
     = \<lparr>outcome = Crashed AttributeError, trace = [], sheet_after = sample_sheet\<rparr>"
  by code_simp

section \<open>No store operation without a timestamp\<close>

text \<open>
  Claim C9. For every run whose first observation has no \<^verbatim>\<open>obsTimeLocal\<close>, or one with a
  false truth value, or one the normaliser reads no instant in, the run ends as a skip
  before any operation on the log store: the worksheet is not opened, not read and not
  appended to, and it is left as it was.
\<close>

theorem no_store_operation_without_timestamp:
  "status_code r = 200 \<and> strip (text_body r) \<noteq> [] \<and> json_body r = Inr (VDict body)
   \<and> map_of body ''observations'' = Some (VList (VDict obs # others))
   \<and> (map_of obs ''obsTimeLocal'' = None
      \<or> (\<exists>t. map_of obs ''obsTimeLocal'' = Some t
            \<and> (\<not> truthy t \<or> parse_any_datetime E t = Inr None)))
   \<longrightarrow> trace (main E r sh) = [] \<and> sheet_after (main E r sh) = sh
       \<and> (outcome (main E r sh) = Skipped MissingObsTime
          \<or> (\<exists>t. map_of obs ''obsTimeLocal'' = Some t
                \<and> outcome (main E r sh) = Skipped (UnparsableObsTime t)))"
proof (intro impI, elim conjE)
  assume a: "status_code r = 200" "strip (text_body r) \<noteq> []" "json_body r = Inr (VDict body)"
    "map_of body ''observations'' = Some (VList (VDict obs # others))"
  assume b: "map_of obs ''obsTimeLocal'' = None
      \<or> (\<exists>t. map_of obs ''obsTimeLocal'' = Some t
            \<and> (\<not> truthy t \<or> parse_any_datetime E t = Inr None))"
  have m: "main E r sh = ingest E (VDict obs) sh"
    by (rule main_first_observation [OF a])
  from b show "trace (main E r sh) = [] \<and> sheet_after (main E r sh) = sh
       \<and> (outcome (main E r sh) = Skipped MissingObsTime
          \<or> (\<exists>t. map_of obs ''obsTimeLocal'' = Some t
                \<and> outcome (main E r sh) = Skipped (UnparsableObsTime t)))"
  proof
    assume "map_of obs ''obsTimeLocal'' = None"
    then show ?thesis by (simp add: m ingest_def)
  next
    assume "\<exists>t. map_of obs ''obsTimeLocal'' = Some t
            \<and> (\<not> truthy t \<or> parse_any_datetime E t = Inr None)"
    then obtain t where t: "map_of obs ''obsTimeLocal'' = Some t"
      and c: "\<not> truthy t \<or> parse_any_datetime E t = Inr None" by blast
    show ?thesis
    proof (cases "truthy t")
      case False
      with t show ?thesis by (simp add: m ingest_def)
    next
      case True
      with c have "parse_any_datetime E t = Inr None" by simp
      with True t show ?thesis by (simp add: m ingest_def)
    qed
  qed
qed

text \<open>
  An observation without \<^verbatim>\<open>obsTimeLocal\<close>, and one whose \<^verbatim>\<open>obsTimeLocal\<close> is no
  timestamp.
\<close>

theorem no_store_operation_without_timestamp_witness:
  "main (example_env johannesburg 60)
     \<lparr>status_code = 200, text_body = ''{...}'',
      json_body = Inr (VDict [(''observations'', VList [VDict [(''humidity'', VInt 55)]])])\<rparr>
     sample_sheet
   = \<lparr>outcome = Skipped MissingObsTime, trace = [], sheet_after = sample_sheet\<rparr>
   \<and> parse_any_datetime (example_env johannesburg 60) (VStr ''yesterday'') = Inr None
   \<and> main (example_env johannesburg 60) (sample_response ''yesterday'') sample_sheet
     = \<lparr>outcome = Skipped (UnparsableObsTime (VStr ''yesterday'')), trace = [],
        sheet_after = sample_sheet\<rparr>"
proof -
  let ?E = "example_env johannesburg 60"
  let ?r = "\<lparr>status_code = 200, text_body = ''{...}'',
      json_body = Inr (VDict [(''observations'', VList [VDict [(''humidity'', VInt 55)]])])\<rparr>"
  have nb: "strip ''{...}'' \<noteq> []" by code_simp
  have p: "parse_any_datetime ?E (VStr ''yesterday'') = Inr None" by code_simp
  have "trace (main ?E ?r sample_sheet) = [] \<and> sheet_after (main ?E ?r sample_sheet) = sample_sheet
       \<and> (outcome (main ?E ?r sample_sheet) = Skipped MissingObsTime
          \<or> (\<exists>t. map_of [(''humidity'', VInt 55)] ''obsTimeLocal'' = Some t
                \<and> outcome (main ?E ?r sample_sheet) = Skipped (UnparsableObsTime t)))"
    using no_store_operation_without_timestamp [where E = ?E and sh = sample_sheet and r = ?r
        and body = "[(''observations'', VList [VDict [(''humidity'', VInt 55)]])]"
        and obs = "[(''humidity'', VInt 55)]" and others = "[]"] nb
    by simp
  then have 1: "main ?E ?r sample_sheet
      = \<lparr>outcome = Skipped MissingObsTime, trace = [], sheet_after = sample_sheet\<rparr>"
    by (cases "main ?E ?r sample_sheet") simp
  let ?q = "sample_response ''yesterday''"
  have "trace (main ?E ?q sample_sheet) = [] \<and> sheet_after (main ?E ?q sample_sheet) = sample_sheet
       \<and> (outcome (main ?E ?q sample_sheet) = Skipped MissingObsTime
          \<or> (\<exists>t. map_of (sample_fields ''yesterday'') ''obsTimeLocal'' = Some t
                \<and> outcome (main ?E ?q sample_sheet) = Skipped (UnparsableObsTime t)))"
    using no_store_operation_without_timestamp [where E = ?E and sh = sample_sheet and r = ?q
        and body = "[(''observations'', VList [sample_obs ''yesterday''])]"
        and obs = "sample_fields ''yesterday''" and others = "[]"] nb p
    by (simp add: sample_response_def sample_obs_def sample_fields_def)
  moreover have "outcome (main ?E ?q sample_sheet) \<noteq> Skipped MissingObsTime" by code_simp
  ultimately have 2: "main ?E ?q sample_sheet
     = \<lparr>outcome = Skipped (UnparsableObsTime (VStr ''yesterday'')), trace = [],
        sheet_after = sample_sheet\<rparr>"
    by (cases "main ?E ?q sample_sheet") (auto simp: sample_fields_def)
  from 1 p 2 show ?thesis by (intro conjI)
qed

section \<open>The row of an admitted observation\<close>

lemma py_get_field: "py_get (VDict kvs) k (VStr []) = Inr (field kvs k)"
  by (simp add: field_def)

lemma metric_value:
  assumes "metric_ok kvs"
  shows "\<exists>mv. py_get (VDict kvs) ''metric'' VNone = Inr mv
           \<and> py_or mv (VDict []) = VDict (metric_of kvs)"
proof (cases "map_of kvs ''metric''")
  case None
  then show ?thesis by (simp add: metric_of_def py_or_def)
next
  case (Some v)
  with assms show ?thesis
    by (cases v) (auto simp: metric_of_def metric_ok_def py_or_def)
qed

lemma map_row_fields:
  assumes "metric_ok kvs"
  shows "map_row ts (VDict kvs) =
     Inr [VStr ts, field (metric_of kvs) ''temp'', field (metric_of kvs) ''windSpeed'',
          field (metric_of kvs) ''windGust'', field kvs ''winddir'',
          field (metric_of kvs) ''precipRate'', field (metric_of kvs) ''precipTotal'',
          field (metric_of kvs) ''pressure'', field kvs ''humidity'']"
proof -
  from metric_value [OF assms] obtain mv where
    mv: "py_get (VDict kvs) ''metric'' VNone = Inr mv" "py_or mv (VDict []) = VDict (metric_of kvs)"
    by blast
  show ?thesis
    unfolding map_row_def mv sum.case Let_def py_get_field by simp
qed








text \<open>
  Claim C10. For every observation whose \<^verbatim>\<open>metric\<close> is absent or null, the row mapping does
  not fail, the six columns read from the metric sub-structure are the empty text, and
  the row is the one of the same observation with an empty metric object.
\<close>

theorem row_without_metric:
  "map_of kvs ''metric'' = None \<or> map_of kvs ''metric'' = Some VNone \<longrightarrow>
     map_row ts (VDict kvs) =
       Inr [VStr ts, VStr [], VStr [], VStr [], field kvs ''winddir'', VStr [], VStr [],
            VStr [], field kvs ''humidity'']
     \<and> map_row ts (VDict kvs) = map_row ts (VDict ((''metric'', VDict []) # kvs))"
proof
  assume a: "map_of kvs ''metric'' = None \<or> map_of kvs ''metric'' = Some VNone"
  then have ok: "metric_ok kvs" and m: "metric_of kvs = []"
    by (auto simp: metric_ok_def metric_of_def)
  have ok': "metric_ok ((''metric'', VDict []) # kvs)"
    and m': "metric_of ((''metric'', VDict []) # kvs) = []"
    by (simp_all add: metric_ok_def metric_of_def)
  have f: "\<And>k. k \<noteq> ''metric'' \<Longrightarrow> field ((''metric'', VDict []) # kvs) k = field kvs k"
    by (simp add: field_def)
  have e: "\<And>k. field [] k = VStr []" by (simp add: field_def)
  show "map_row ts (VDict kvs) =
       Inr [VStr ts, VStr [], VStr [], VStr [], field kvs ''winddir'', VStr [], VStr [],
            VStr [], field kvs ''humidity'']
     \<and> map_row ts (VDict kvs) = map_row ts (VDict ((''metric'', VDict []) # kvs))"
    by (simp add: map_row_fields [OF ok] map_row_fields [OF ok'] m m' f e)
qed

text \<open>An observation with a null \<^verbatim>\<open>metric\<close> and no humidity.\<close>

theorem row_without_metric_witness:
  "map_row ''2024-01-01 10:01:00''
     (VDict [(''obsTimeLocal'', VStr ''2024-01-01 10:01:00''), (''metric'', VNone),
             (''winddir'', VInt 180)])
   = Inr [VStr ''2024-01-01 10:01:00'', VStr [], VStr [], VStr [], VInt 180, VStr [],
          VStr [], VStr [], VStr []]"
proof -
  let ?kvs = "[(''obsTimeLocal'', VStr ''2024-01-01 10:01:00''), (''metric'', VNone),
             (''winddir'', VInt 180)]"
  have h: "map_of ?kvs ''metric'' = None \<or> map_of ?kvs ''metric'' = Some VNone" by simp
  have f: "field ?kvs ''winddir'' = VInt 180" "field ?kvs ''humidity'' = VStr []"
    by (simp_all add: field_def)
  from row_without_metric [where kvs = ?kvs and ts = "''2024-01-01 10:01:00''",
      THEN mp, OF h, THEN conjunct1]
  show ?thesis by (simp only: f)
qed

section \<open>The written timestamp read back\<close>





end
